theory Spec2Isabelle
  imports Complex_Main "HOL-Library.Sublist" "HOL-Library.Multiset"
    "HOL-Library.Char_ord" "HOL-Library.List_Lexorder" "HOL-Library.Product_Lexorder"
begin

section \<open>Alliance description template: tabular statistics\<close>

text \<open>
  The script \<^verbatim>\<open>01_alliance_template.py\<close> is a linear pipeline over tables.  A table is
  modelled as the list of its rows, a row as a record of the columns the pipeline reads.
  Numeric cells are floating-point numbers in the script; they are modelled as rationals,
  which is exact for every comparison against the integer thresholds used below.  Where
  the script rounds a number to one decimal, the rounding is a parameter of the definition.
\<close>

subsection \<open>Floristic statistics rows and the inclusion rule\<close>

text \<open>
  A row of \<^verbatim>\<open>stats_diagnostic\<close> or \<^verbatim>\<open>stats_composition\<close> after the merge of the
  constancy table with the cover table, \<^verbatim>\<open>.round(1)\<close> and the renaming of the
  percentile columns.
\<close>

record stats_row =
  row_label :: string
  occurrences :: nat
  constancy :: rat
  mean :: rat
  percentile_10th :: rat
  percentile_25th :: rat
  percentile_75th :: rat
  percentile_90th :: rat

text \<open>The boolean mask of lines 778-782 and 976-980 (the same expression on both tables).\<close>

definition floristic_mask :: "stats_row \<Rightarrow> bool" where
  "floristic_mask r =
     (percentile_75th r \<ge> 1
      \<and> ((constancy r \<ge> 25 \<and> mean r \<ge> 2)
         \<or> (constancy r \<ge> 50 \<and> mean r \<ge> 1)))"

text \<open>
  \<^verbatim>\<open>stats_diagnostic = stats_diagnostic[mask]\<close> followed by
  \<^verbatim>\<open>sort_values(by='mean', ascending=True)\<close>; likewise for the composition table.
\<close>

definition filter_stats_diagnostic :: "stats_row list \<Rightarrow> stats_row list" where
  "filter_stats_diagnostic stats_diagnostic =
     sort_key mean (filter floristic_mask stats_diagnostic)"

definition filter_stats_composition :: "stats_row list \<Rightarrow> stats_row list" where
  "filter_stats_composition stats_composition =
     sort_key mean (filter floristic_mask stats_composition)"

subsection \<open>Floating-point cells that need not be finite\<close>

text \<open>
  The rescaling of the abiotic cover divides by a sum that can be zero.  The operands are
  floating-point scalars of the array library, for which a division by zero yields an
  infinity or a not-a-number value instead of raising.  Cells of the structure summary
  are therefore modelled with these values written out; the finite ones are rationals.
\<close>

datatype float_val = Finite rat | PosInf | NegInf | NaN

fun fdiv :: "rat \<Rightarrow> rat \<Rightarrow> float_val" where
  "fdiv a b =
     (if b \<noteq> 0 then Finite (a / b)
      else if a > 0 then PosInf
      else if a < 0 then NegInf
      else NaN)"

fun fmul :: "rat \<Rightarrow> float_val \<Rightarrow> float_val" where
  "fmul a (Finite b) = Finite (a * b)"
| "fmul a PosInf = (if a > 0 then PosInf else if a < 0 then NegInf else NaN)"
| "fmul a NegInf = (if a > 0 then NegInf else if a < 0 then PosInf else NaN)"
| "fmul a NaN = NaN"

fun fadd :: "float_val \<Rightarrow> float_val \<Rightarrow> float_val" where
  "fadd (Finite a) (Finite b) = Finite (a + b)"
| "fadd NaN y = NaN"
| "fadd x NaN = NaN"
| "fadd PosInf NegInf = NaN"
| "fadd NegInf PosInf = NaN"
| "fadd PosInf y = PosInf"
| "fadd x PosInf = PosInf"
| "fadd NegInf y = NegInf"
| "fadd x NegInf = NegInf"

text \<open>The comparison \<^verbatim>\<open>> 0\<close>: false on not-a-number.\<close>

fun fgt0 :: "float_val \<Rightarrow> bool" where
  "fgt0 (Finite a) = (a > 0)"
| "fgt0 PosInf = True"
| "fgt0 NegInf = False"
| "fgt0 NaN = False"

text \<open>
  \<^verbatim>\<open>.round(1)\<close> and \<^verbatim>\<open>round(x, 1)\<close> round a float to one decimal.  The neighbour that a
  value half-way between two one-decimal values is rounded to depends on the binary
  representation of the float, which is not modelled.  The rounding is therefore a
  parameter \<open>rnd\<close> of the definitions that round, and the theorems assume of it only
  what \<open>one_decimal_rounding\<close> says: the result has one decimal and is at most 0.05
  away from the value.
\<close>

definition one_decimal_rounding :: "(rat \<Rightarrow> rat) \<Rightarrow> bool" where
  "one_decimal_rounding rnd =
     (\<forall>x. (\<exists>k::int. rnd x = of_int k / 10) \<and> \<bar>rnd x - x\<bar> \<le> 1 / 20)"

text \<open>
  The rounding that resolves a tie to the even digit, in exact arithmetic: the instance
  used to evaluate the definitions at inputs that have no value at a tie.
\<close>

definition round_half_even :: "rat \<Rightarrow> int" where
  "round_half_even x =
     (let f = \<lfloor>x\<rfloor>; d = x - of_int f
      in if d < 1 / 2 then f
         else if d > 1 / 2 then f + 1
         else if even f then f else f + 1)"

definition round1 :: "rat \<Rightarrow> rat" where
  "round1 x = of_int (round_half_even (x * 10)) / 10"

fun fround :: "(rat \<Rightarrow> rat) \<Rightarrow> float_val \<Rightarrow> float_val" where
  "fround rnd (Finite a) = Finite (rnd a)"
| "fround rnd x = x"

text \<open>The sum of a column of cells, added up in order.\<close>

definition fsum :: "float_val list \<Rightarrow> float_val" where
  "fsum xs = foldl fadd (Finite 0) xs"

subsection \<open>Structure summary (lines 592-618)\<close>

text \<open>
  \<^verbatim>\<open>structure_biotic\<close> and \<^verbatim>\<open>structure_abiotic\<close> are one-column tables of means
  indexed by the structure name (taxon habit, abiotic element).
\<close>

type_synonym structure_table = "(string \<times> rat) list"

text \<open>Lines 595-608: the abiotic means multiplied by the adjustment factor.\<close>

definition rescale_abiotic ::
  "structure_table \<Rightarrow> structure_table \<Rightarrow> (string \<times> float_val) list" where
  "rescale_abiotic structure_biotic structure_abiotic =
     (let biotic_sum = sum_list (map snd structure_biotic);
          abiotic_remainder = 100 - biotic_sum;
          abiotic_sum = sum_list (map snd structure_abiotic);
          abiotic_adjustment = fdiv abiotic_remainder abiotic_sum
      in map (\<lambda>(s, m). (s, fmul m abiotic_adjustment)) structure_abiotic)"

text \<open>Line 611, before rounding: the biotic rows followed by the rescaled abiotic rows.\<close>

definition structure_concat ::
  "structure_table \<Rightarrow> structure_table \<Rightarrow> (string \<times> float_val) list" where
  "structure_concat structure_biotic structure_abiotic =
     map (\<lambda>(s, m). (s, Finite m)) structure_biotic
     @ rescale_abiotic structure_biotic structure_abiotic"

text \<open>
  Lines 611-618: the concatenation rounded to one decimal by \<open>rnd\<close>, then the rows whose
  mean is greater than 0.  (The title-casing of the structure names that follows does not
  touch the values and is left out.)
\<close>

definition structure_summary ::
  "(rat \<Rightarrow> rat) \<Rightarrow> structure_table \<Rightarrow> structure_table \<Rightarrow> (string \<times> float_val) list" where
  "structure_summary rnd structure_biotic structure_abiotic =
     filter (\<lambda>(s, m). fgt0 m)
       (map (\<lambda>(s, m). (s, fround rnd m)) (structure_concat structure_biotic structure_abiotic))"

subsection \<open>Percentile helpers (lines 76-90)\<close>

text \<open>
  Modelled from the spec: the \<^verbatim>\<open>quantile\<close> method of the tabular-data library, which
  is not part of the repository.  With its default setting it interpolates linearly
  between the two order statistics around the position \<open>q * (n - 1)\<close> of the sorted
  non-null values, and yields not-a-number on an empty series.  The argument is the list
  of the non-null values of the series.
\<close>

definition quantile :: "rat list \<Rightarrow> rat \<Rightarrow> float_val" where
  "quantile x q =
     (if x = [] then NaN
      else let s = sort x;
               n = length s;
               virtual_index = of_nat (n - 1) * q;
               previous_index = nat \<lfloor>virtual_index\<rfloor>;
               next_index = min (previous_index + 1) (n - 1);
               gamma = virtual_index - of_nat previous_index
           in Finite (s ! previous_index + (s ! next_index - s ! previous_index) * gamma))"

definition percentile_10 :: "rat list \<Rightarrow> float_val" where
  "percentile_10 x = quantile x (10 / 100)"

definition percentile_25 :: "rat list \<Rightarrow> float_val" where
  "percentile_25 x = quantile x (25 / 100)"

definition percentile_75 :: "rat list \<Rightarrow> float_val" where
  "percentile_75 x = quantile x (75 / 100)"

definition percentile_90 :: "rat list \<Rightarrow> float_val" where
  "percentile_90 x = quantile x (90 / 100)"

text \<open>
  The standard definition the helpers are compared with: for \<open>N\<close> values and
  probability \<open>p\<close>, the rank \<open>h = (N - 1) p + 1\<close> (counting the sorted values from 1)
  and the value \<open>x\<^sub>\<lfloor>\<^sub>h\<^sub>\<rfloor> + (h - \<lfloor>h\<rfloor>) (x\<^sub>\<lceil>\<^sub>h\<^sub>\<rceil> - x\<^sub>\<lfloor>\<^sub>h\<^sub>\<rfloor>)\<close>.
\<close>

definition standard_quantile :: "rat list \<Rightarrow> rat \<Rightarrow> rat" where
  "standard_quantile x p =
     (let s = sort x;
          h = (of_nat (length x) - 1) * p + 1;
          x_lo = s ! (nat \<lfloor>h\<rfloor> - 1);
          x_hi = s ! (nat \<lceil>h\<rceil> - 1)
      in x_lo + (h - of_int \<lfloor>h\<rfloor>) * (x_hi - x_lo))"

subsection \<open>Measurement series and their missing-data codes\<close>

text \<open>Rows of the query results and of the site-visit table, with the columns read.\<close>

record shrub_row =
  height_type :: string
  height_cm :: "rat option"

record tussock_row =
  tussock_cover_type :: string
  tussock_cover_percent :: "rat option"

record site_visit =
  site_visit_code :: string
  obs_year :: int
  perspective :: string
  scope_vascular :: string
  scope_bryophyte :: string
  scope_lichen :: string
  veg_type :: "string option"
  elevation_m :: "rat option"
  slope_deg :: "rat option"

record environment_row =
  env_site_visit_code :: string
  physiography :: "string option"
  geomorphology :: "string option"
  macrotopography :: "string option"
  microtopography :: "string option"
  moisture_regime :: "string option"
  restrictive_type :: "string option"
  surface_water :: "bool option"
  depth_water_cm :: "rat option"
  depth_moss_duff_cm :: "rat option"
  depth_restrictive_layer_cm :: "rat option"

record soilmetrics_row =
  ph :: "rat option"
  conductivity_mus :: "rat option"

text \<open>\<^verbatim>\<open>.dropna()\<close> on a column: the non-null cells, in order.\<close>

definition dropna :: "'a option list \<Rightarrow> 'a list" where
  "dropna column = [v. Some v \<leftarrow> column]"

text \<open>
  \<^verbatim>\<open>.dropna()\<close> on a frame of the site-visit code and one measurement column.  The code
  is the key of the row and is never null, so a row is dropped when its measurement is.
\<close>

definition dropna_keyed :: "(string \<times> 'a option) list \<Rightarrow> (string \<times> 'a) list" where
  "dropna_keyed frame = [(k, v). (k, Some v) \<leftarrow> frame]"

text \<open>
  Each block below is in two definitions: the series as it is before the comparison with
  the missing-data code (selection of rows and column, \<^verbatim>\<open>dropna\<close>, numeric type), and the
  series after it, which is what the statistics are aggregated over.
\<close>

text \<open>Lines 497-501: woody canopy height.\<close>

definition canopy_height_cm :: "shrub_row list \<Rightarrow> rat list" where
  "canopy_height_cm shrub_data =
     dropna (map height_cm
       (filter (\<lambda>r. height_type r \<in> set [''point-intercept mean'', ''mean'']) shrub_data))"

definition canopy_data :: "shrub_row list \<Rightarrow> rat list" where
  "canopy_data shrub_data = filter (\<lambda>h. h \<noteq> - 999) (canopy_height_cm shrub_data)"

text \<open>Lines 516-520: whole tussock cover.\<close>

definition tussock_cover :: "tussock_row list \<Rightarrow> rat list" where
  "tussock_cover tussock_data =
     dropna (map tussock_cover_percent
       (filter (\<lambda>r. tussock_cover_type r \<in> set [''absolute foliar cover'', ''absolute canopy cover''])
          tussock_data))"

definition tussock_data_clean :: "tussock_row list \<Rightarrow> rat list" where
  "tussock_data_clean tussock_data = filter (\<lambda>c. c \<noteq> - 999) (tussock_cover tussock_data)"

text \<open>Lines 1182-1184: elevation, sampled from the raster at the site visits.\<close>

definition elevation_frame :: "site_visit list \<Rightarrow> (string \<times> rat) list" where
  "elevation_frame site_visit_data =
     dropna_keyed (map (\<lambda>v. (site_visit_code v, elevation_m v)) site_visit_data)"

definition elevation_data :: "site_visit list \<Rightarrow> (string \<times> rat) list" where
  "elevation_data site_visit_data =
     filter (\<lambda>(k, e). e \<noteq> - 32768) (elevation_frame site_visit_data)"

text \<open>Lines 1199-1201: slope.\<close>

definition slope_frame :: "site_visit list \<Rightarrow> (string \<times> rat) list" where
  "slope_frame site_visit_data =
     dropna_keyed (map (\<lambda>v. (site_visit_code v, slope_deg v)) site_visit_data)"

definition slope_data :: "site_visit list \<Rightarrow> (string \<times> rat) list" where
  "slope_data site_visit_data =
     filter (\<lambda>(k, s). s \<noteq> - 32768) (slope_frame site_visit_data)"

text \<open>Lines 1216-1218: water depth.\<close>

definition waterdepth_frame :: "environment_row list \<Rightarrow> (string \<times> rat) list" where
  "waterdepth_frame environment_data =
     dropna_keyed (map (\<lambda>r. (env_site_visit_code r, depth_water_cm r)) environment_data)"

definition waterdepth_data :: "environment_row list \<Rightarrow> (string \<times> rat) list" where
  "waterdepth_data environment_data =
     filter (\<lambda>(k, d). d \<noteq> - 999) (waterdepth_frame environment_data)"

text \<open>Lines 1233-1235: moss and duff depth.\<close>

definition mossduff_depth :: "environment_row list \<Rightarrow> rat list" where
  "mossduff_depth environment_data = dropna (map depth_moss_duff_cm environment_data)"

definition mossduff_data :: "environment_row list \<Rightarrow> rat list" where
  "mossduff_data environment_data =
     filter (\<lambda>d. d \<noteq> - 999) (mossduff_depth environment_data)"

text \<open>Lines 1250-1254: depth of the restrictive layer.\<close>

definition restictdepth_depth :: "environment_row list \<Rightarrow> rat list" where
  "restictdepth_depth environment_data =
     dropna (map depth_restrictive_layer_cm environment_data)"

definition restictdepth_data :: "environment_row list \<Rightarrow> rat list" where
  "restictdepth_data environment_data =
     filter (\<lambda>d. d \<noteq> - 999) (restictdepth_depth environment_data)"

text \<open>Lines 1269-1271: soil pH.\<close>

definition pH_values :: "soilmetrics_row list \<Rightarrow> rat list" where
  "pH_values soilmetrics_data = dropna (map ph soilmetrics_data)"

definition pH_data :: "soilmetrics_row list \<Rightarrow> rat list" where
  "pH_data soilmetrics_data = filter (\<lambda>v. v \<noteq> - 999) (pH_values soilmetrics_data)"

text \<open>Lines 1286-1288: soil conductivity.\<close>

definition conductivity_values :: "soilmetrics_row list \<Rightarrow> rat list" where
  "conductivity_values soilmetrics_data = dropna (map conductivity_mus soilmetrics_data)"

definition conductivity_data :: "soilmetrics_row list \<Rightarrow> rat list" where
  "conductivity_data soilmetrics_data =
     filter (\<lambda>v. v \<noteq> - 999) (conductivity_values soilmetrics_data)"

text \<open>
  The nine series side by side, to state one property of all of them: the tables they are
  read from, the values of a series before and after its sentinel step, and the
  missing-data code of each series.
\<close>

record measurement_tables =
  shrub_table :: "shrub_row list"
  tussock_table :: "tussock_row list"
  site_visit_table :: "site_visit list"
  environment_table :: "environment_row list"
  soilmetrics_table :: "soilmetrics_row list"

datatype series =
  Canopy_height | Tussock_cover | Elevation | Slope | Water_depth
  | Moss_duff_depth | Restrictive_layer_depth | Soil_pH | Conductivity

fun missing_code :: "series \<Rightarrow> rat" where
  "missing_code Elevation = - 32768"
| "missing_code Slope = - 32768"
| "missing_code s = - 999"

fun recorded :: "series \<Rightarrow> measurement_tables \<Rightarrow> rat list" where
  "recorded Canopy_height t = canopy_height_cm (shrub_table t)"
| "recorded Tussock_cover t = tussock_cover (tussock_table t)"
| "recorded Elevation t = map snd (elevation_frame (site_visit_table t))"
| "recorded Slope t = map snd (slope_frame (site_visit_table t))"
| "recorded Water_depth t = map snd (waterdepth_frame (environment_table t))"
| "recorded Moss_duff_depth t = mossduff_depth (environment_table t)"
| "recorded Restrictive_layer_depth t = restictdepth_depth (environment_table t)"
| "recorded Soil_pH t = pH_values (soilmetrics_table t)"
| "recorded Conductivity t = conductivity_values (soilmetrics_table t)"

fun aggregated :: "series \<Rightarrow> measurement_tables \<Rightarrow> rat list" where
  "aggregated Canopy_height t = canopy_data (shrub_table t)"
| "aggregated Tussock_cover t = tussock_data_clean (tussock_table t)"
| "aggregated Elevation t = map snd (elevation_data (site_visit_table t))"
| "aggregated Slope t = map snd (slope_data (site_visit_table t))"
| "aggregated Water_depth t = map snd (waterdepth_data (environment_table t))"
| "aggregated Moss_duff_depth t = mossduff_data (environment_table t)"
| "aggregated Restrictive_layer_depth t = restictdepth_data (environment_table t)"
| "aggregated Soil_pH t = pH_data (soilmetrics_table t)"
| "aggregated Conductivity t = conductivity_data (soilmetrics_table t)"

subsection \<open>Vegetation cover (lines 271-289)\<close>

text \<open>
  The columns every floristic table carries, the rows of the vegetation cover query, and
  the rows after the join with the taxonomy (the selected fields of lines 299-302; a
  taxon column is null where the left join found no taxon).
\<close>

record cover_columns =
  veg_site_visit_code :: string
  name_accepted :: string
  cover_percent :: rat

record vegetation_row = cover_columns +
  cover_type :: string
  dead_status :: bool

record floristic_row = cover_columns +
  taxon_genus :: "string option"
  taxon_level :: "string option"
  taxon_category :: "string option"
  taxon_habit :: "string option"

text \<open>
  Lines 278-289: the cover column with -999 replaced by 0, then the rows of absolute
  cover, then the rows of live vegetation.
\<close>

definition vegetation_cover :: "vegetation_row list \<Rightarrow> vegetation_row list" where
  "vegetation_cover vegetation_data =
     filter (\<lambda>r. dead_status r = False)
       (filter (\<lambda>r. cover_type r \<in> set [''absolute foliar cover'', ''absolute canopy cover''])
          (map (\<lambda>r. r\<lparr>cover_percent := (if cover_percent r = - 999 then 0 else cover_percent r)\<rparr>)
             vegetation_data))"

subsection \<open>Constancy (lines 703-717 and 872-894)\<close>

text \<open>\<^verbatim>\<open>.unique()\<close>: the distinct values in the order of their first appearance.\<close>

definition unique :: "'a list \<Rightarrow> 'a list" where
  "unique xs = rev (remdups (rev xs))"

text \<open>
  \<^verbatim>\<open>.value_counts()\<close>: each distinct value with the number of rows holding it, the
  most frequent first.  Values with equal counts are kept in the order of their first
  appearance; nothing below depends on that order.
\<close>

definition value_counts :: "'a list \<Rightarrow> ('a \<times> nat) list" where
  "value_counts xs =
     sort_key (\<lambda>(v, c). - int c) (map (\<lambda>v. (v, count_list xs v)) (unique xs))"

text \<open>
  The constancy computation is written five times in the script, each time on the
  site-visit column and the label column (accepted name or diagnostic set) of one table:
  the occurrences of each label, divided by the number of distinct site visits of the
  table, times 100.  A row of the result is (label, occurrences, constancy).  The
  vascular table (lines 872-878) and the diagnostic table of the vascular data
  (lines 703-709) are the two instances below.
\<close>

definition constancy_table :: "(string \<times> string) list \<Rightarrow> (string \<times> nat \<times> rat) list" where
  "constancy_table rows =
     map (\<lambda>(label, occurrences).
            (label, occurrences,
             of_nat occurrences / of_nat (length (unique (map fst rows))) * 100))
       (value_counts (map snd rows))"

definition site_taxon_columns :: "floristic_row list \<Rightarrow> (string \<times> string) list" where
  "site_taxon_columns table = map (\<lambda>r. (veg_site_visit_code r, name_accepted r)) table"

definition constancy_vascular :: "floristic_row list \<Rightarrow> (string \<times> nat \<times> rat) list" where
  "constancy_vascular vascular_data = constancy_table (site_taxon_columns vascular_data)"

text \<open>
  \<^verbatim>\<open>groupby([site_visit_code, label])['cover_percent'].sum()\<close> with the index reset: one
  row for each distinct pair of keys, the pairs in sorted order, with the sum of the cover
  of the rows of the pair.
\<close>

definition groupby_sum :: "(string \<times> string \<times> rat) list \<Rightarrow> (string \<times> string \<times> rat) list" where
  "groupby_sum rows =
     map (\<lambda>k. (fst k, snd k, sum_list [c. (s, l, c) \<leftarrow> rows, (s, l) = k]))
       (sort (remdups (map (\<lambda>(s, l, c). (s, l)) rows)))"

text \<open>
  Lines 679-701.  The schema table holds the pairs (diagnostic set, constituent taxon).
  The inner join pairs each floristic row with the schema rows of its accepted name; the
  result, (site visit, diagnostic set, cover), is grouped and summed.
\<close>

definition diagnostic_merge ::
  "floristic_row list \<Rightarrow> (string \<times> string) list \<Rightarrow> (string \<times> string \<times> rat) list" where
  "diagnostic_merge floristic_data schema_data =
     [(veg_site_visit_code r, fst d, cover_percent r).
        r \<leftarrow> floristic_data, d \<leftarrow> schema_data, snd d = name_accepted r]"

definition diagnostic_vascular ::
  "floristic_row list \<Rightarrow> (string \<times> string) list \<Rightarrow> (string \<times> string \<times> rat) list" where
  "diagnostic_vascular vascular_data schema_data =
     groupby_sum (diagnostic_merge vascular_data schema_data)"

definition site_set_columns :: "(string \<times> string \<times> rat) list \<Rightarrow> (string \<times> string) list" where
  "site_set_columns table = map (\<lambda>(s, l, c). (s, l)) table"

definition constancy_diagnostic_vasc ::
  "(string \<times> string \<times> rat) list \<Rightarrow> (string \<times> nat \<times> rat) list" where
  "constancy_diagnostic_vasc diagnostic_table = constancy_table (site_set_columns diagnostic_table)"

subsection \<open>Categorical environment summaries (lines 1108-1179)\<close>

datatype error = KeyError | AttributeError




































subsection \<open>Markdown field parsing (lines 92-125)\<close>

text \<open>
  Text is modelled as a list of characters with code points below 256.  The whitespace of
  the pattern item \<^verbatim>\<open>\s\<close> and of \<^verbatim>\<open>strip()\<close> is the same set of characters: tab, line
  feed, vertical tab, form feed, carriage return, the four separators 28 to 31, the
  space, and the code points 133 and 160.
\<close>

definition is_space :: "char \<Rightarrow> bool" where
  "is_space c = ((of_char c :: nat) \<in> set [9, 10, 11, 12, 13, 28, 29, 30, 31, 32, 133, 160])"

definition newline :: char where
  "newline = CHR 0x0A"

definition strip :: "string \<Rightarrow> string" where
  "strip s = rev (dropWhile is_space (rev (dropWhile is_space s)))"

text \<open>
  The search for the first place where a text occurs, returning what follows it.  It
  models the leftmost match of the part \<^verbatim>\<open>\*\*label:\*\*\<close> of the pattern for a label
  that matches itself; the three labels of the script, \<^verbatim>\<open>Unit Name\<close>, \<^verbatim>\<open>Level\<close> and
  \<^verbatim>\<open>Photos\<close>, are such labels.
\<close>

fun find_after :: "string \<Rightarrow> string \<Rightarrow> string option" where
  "find_after lit [] = (if lit = [] then Some [] else None)"
| "find_after lit (c # cs) =
     (if prefix lit (c # cs) then Some (drop (length lit) (c # cs)) else find_after lit cs)"

text \<open>
  \<^verbatim>\<open>re.search(pattern, content)\<close> and \<^verbatim>\<open>match.group(1)\<close>: after the label, \<^verbatim>\<open>\s*\<close>
  takes all the whitespace that follows, line feeds included, and \<^verbatim>\<open>(.*)\<close> takes the
  characters up to the next line feed.  Both may be empty, so the match succeeds wherever
  the label is found.
\<close>

definition re_search_group :: "string \<Rightarrow> string \<Rightarrow> string option" where
  "re_search_group label content =
     (case find_after (''**'' @ label @ '':**'') content of
        None \<Rightarrow> None
      | Some rest \<Rightarrow> Some (takeWhile (\<lambda>c. c \<noteq> newline) (dropWhile is_space rest)))"

text \<open>
  \<^verbatim>\<open>parse_markdown\<close>.  The file system is the argument \<open>file\<close>: the content of the file at
  \<^verbatim>\<open>text_input\<close>, or \<open>None\<close> when there is no such file.  The result is the returned
  value with the lines printed.
\<close>

definition parse_markdown :: "string option \<Rightarrow> string \<Rightarrow> string \<Rightarrow> string option \<times> string list" where
  "parse_markdown file text_input label =
     (case file of
        None \<Rightarrow> (None, [''Error: The file '' @ text_input @ '' was not found.''])
      | Some content \<Rightarrow>
          (case re_search_group label content of
             None \<Rightarrow> (None, [])
           | Some group1 \<Rightarrow> (Some (strip group1), [])))"

text \<open>\<^verbatim>\<open>str.split(sep)\<close> for a separator that is not empty.\<close>

function split_at :: "char \<Rightarrow> string \<Rightarrow> string \<Rightarrow> string \<Rightarrow> string list" where
  "split_at s ss acc [] = [rev acc]"
| "split_at s ss acc (c # cs) =
     (if prefix (s # ss) (c # cs) then rev acc # split_at s ss [] (drop (length ss) cs)
      else split_at s ss (c # acc) cs)"
  by pat_completeness auto
termination
  by (relation "measure (\<lambda>(s, ss, acc, text). length text)") simp_all

definition split_comma :: "string \<Rightarrow> string list" where
  "split_comma text = split_at (CHR '','') '' '' [] text"

text \<open>
  Lines 121-125: the three fields are parsed, and the photo text is split.  A method call
  on the null value raises an attribute error, which nothing catches.  The result is the
  lines printed, with the error or the values of \<^verbatim>\<open>unit_name\<close>, \<^verbatim>\<open>level_text\<close>,
  \<^verbatim>\<open>photo_text\<close> and \<^verbatim>\<open>photo_list\<close>.
\<close>

definition parse_text_descriptions ::
  "string option \<Rightarrow> string \<Rightarrow>
     string list \<times> (error + string option \<times> string option \<times> string \<times> string list)" where
  "parse_text_descriptions file text_input =
     (let (unit_name, printed1) = parse_markdown file text_input ''Unit Name'';
          (level_text, printed2) = parse_markdown file text_input ''Level'';
          (photo_text, printed3) = parse_markdown file text_input ''Photos''
      in (printed1 @ printed2 @ printed3,
          (case photo_text of
             None \<Rightarrow> Inl AttributeError
           | Some text \<Rightarrow> Inr (unit_name, level_text, text, split_comma text))))"

text \<open>
  The stripped remainder of a line, given the text that follows the label: the
  characters up to the next line feed, without the whitespace at both ends.
\<close>

definition spec_line_remainder :: "string \<Rightarrow> string" where
  "spec_line_remainder rest = strip (takeWhile (\<lambda>c. c \<noteq> newline) rest)"

subsection \<open>Site visits of the unit and the WHERE statement (lines 162-275)\<close>

















section \<open>Verified properties\<close>

text \<open>
  C1.  A statistics row is kept by the diagnostic-set filter, and by the species-composition
  filter, exactly when its 75th percentile is at least 1 and either its constancy is at
  least 25 with mean at least 2, or its constancy is at least 50 with mean at least 1.
  A row with constancy 30, mean 2.5 and 75th percentile 1.2 passes the rule whatever its
  other columns hold; a row with constancy 10, mean 5 and 75th percentile 2 does not.
\<close>

theorem C1_inclusion_rule:
  "(r \<in> set (filter_stats_diagnostic rows) \<longleftrightarrow>
      r \<in> set rows \<and> percentile_75th r \<ge> 1
      \<and> ((constancy r \<ge> 25 \<and> mean r \<ge> 2) \<or> (constancy r \<ge> 50 \<and> mean r \<ge> 1)))
   \<and> (r \<in> set (filter_stats_composition rows) \<longleftrightarrow>
      r \<in> set rows \<and> percentile_75th r \<ge> 1
      \<and> ((constancy r \<ge> 25 \<and> mean r \<ge> 2) \<or> (constancy r \<ge> 50 \<and> mean r \<ge> 1)))
   \<and> floristic_mask (r\<lparr>constancy := 30, mean := 5 / 2, percentile_75th := 6 / 5\<rparr>)
   \<and> \<not> floristic_mask (r\<lparr>constancy := 10, mean := 5, percentile_75th := 2\<rparr>)"
  by (auto simp: filter_stats_diagnostic_def filter_stats_composition_def floristic_mask_def)

subsection \<open>Structure summary\<close>

lemma fsum_Finite_aux: "foldl fadd (Finite a) (map Finite xs) = Finite (a + sum_list xs)"
  by (induction xs arbitrary: a) (simp_all add: add.assoc)

lemma fsum_Finite: "fsum (map Finite xs) = Finite (sum_list xs)"
  by (simp add: fsum_def fsum_Finite_aux)

lemma sum_list_scale: "sum_list (map (\<lambda>m. m * c) xs) = sum_list xs * (c::rat)"
  by (induction xs) (simp_all add: algebra_simps)

lemma round_half_even_near: "\<bar>of_int (round_half_even y) - y\<bar> \<le> 1 / 2"
proof -
  have "of_int \<lfloor>y\<rfloor> \<le> y" "y < of_int \<lfloor>y\<rfloor> + 1" by linarith+
  then show ?thesis
    by (auto simp: round_half_even_def Let_def)
qed

lemma one_decimal_rounding_round1: "one_decimal_rounding round1"
proof -
  have "\<bar>round1 x - x\<bar> \<le> 1 / 20" for x
  proof -
    have "\<bar>of_int (round_half_even (x * 10)) - x * 10\<bar> \<le> 1 / 2"
      by (rule round_half_even_near)
    then show ?thesis
      by (simp add: round1_def field_simps abs_le_iff)
  qed
  then show ?thesis
    by (auto simp: one_decimal_rounding_def round1_def)
qed

text \<open>The exact values of the rows before rounding, when the abiotic sum is not zero.\<close>

lemma structure_concat_exact:
  assumes "sum_list (map snd ab) \<noteq> 0"
  shows "structure_concat bi ab =
     map (\<lambda>(s, m). (s, Finite m))
       (bi @ map (\<lambda>(s, m). (s, m * ((100 - sum_list (map snd bi)) / sum_list (map snd ab)))) ab)"
  using assms
  by (simp add: structure_concat_def rescale_abiotic_def Let_def split_def)

lemma summary_of_finite_rows:
  "map snd (filter (\<lambda>(s, m). fgt0 m)
       (map (\<lambda>(s, m). (s, fround rnd m)) (map (\<lambda>(s, m). (s, Finite m)) rows)))
     = map Finite (filter (\<lambda>y. y > 0) (map rnd (map snd rows)))"
  by (induction rows) auto

lemma rounded_sum_near:
  assumes "\<forall>x. \<bar>rnd x - x\<bar> \<le> (1 / 20 :: rat)" "\<forall>x \<in> set xs. 0 \<le> x"
  shows "\<bar>sum_list (filter (\<lambda>y. y > 0) (map rnd xs)) - sum_list xs\<bar> \<le> of_nat (length xs) / 20"
  using assms(2)
proof (induction xs)
  case Nil
  then show ?case by simp
next
  case (Cons x xs)
  let ?S = "sum_list (filter (\<lambda>y. y > 0) (map rnd xs))"
  let ?T = "sum_list xs"
  let ?n = "of_nat (length xs) :: rat"
  have "\<bar>rnd x - x\<bar> \<le> 1 / 20" using assms(1) by blast
  then have near: "rnd x - x \<le> 1 / 20" "x - rnd x \<le> 1 / 20" by linarith+
  have x: "0 \<le> x" using Cons.prems by simp
  have "\<bar>?S - ?T\<bar> \<le> ?n / 20" using Cons by simp
  then have ih: "?S - ?T \<le> ?n / 20" "?T - ?S \<le> ?n / 20" by linarith+
  have len: "of_nat (length (x # xs)) / 20 = ?n / 20 + (1 / 20 :: rat)" by simp
  show ?case
  proof (cases "rnd x > 0")
    case True
    then have "sum_list (filter (\<lambda>y. y > 0) (map rnd (x # xs))) = rnd x + ?S" by simp
    moreover have "\<bar>(rnd x + ?S) - (x + ?T)\<bar> \<le> ?n / 20 + 1 / 20"
      using near ih by linarith
    ultimately show ?thesis unfolding len by simp
  next
    case False
    then have "sum_list (filter (\<lambda>y. y > 0) (map rnd (x # xs))) = ?S" by simp
    moreover have "\<bar>?S - (x + ?T)\<bar> \<le> ?n / 20 + 1 / 20"
      using near ih x False by linarith
    ultimately show ?thesis unfolding len by simp
  qed
qed

text \<open>
  C2 (as stated).  The claim that the values of the structure summary sum to 100 for every
  input fails on the code.  The summary holds the values rounded to one decimal: three
  abiotic means of 1 beside a biotic mean of 50 give 50 + 3 * 16.7 = 100.1.  The rows
  that are not greater than 0 are removed: a biotic mean of 120 makes the rescaled
  abiotic mean negative and the summary sums to 120, and a negative abiotic or biotic
  mean is removed after the rescaling and leaves 110.  With no abiotic rows there is nothing to
  rescale and the summary sums to the biotic sum, 60.  No value of these inputs is at a
  tie of the rounding.
\<close>

theorem C2_summary_sum_counterexample:
  "fsum (map snd (structure_summary round1 [(''shrub'', 50)]
       [(''water'', 1), (''soil'', 1), (''litter (< 2 mm)'', 1)])) = Finite (1001 / 10)
   \<and> fsum (map snd (structure_summary round1 [(''shrub'', 50)]
       [(''water'', 1), (''soil'', 1), (''litter (< 2 mm)'', 1)])) \<noteq> Finite 100
   \<and> fsum (map snd (structure_summary round1 [(''shrub'', 120)] [(''water'', 10)])) \<noteq> Finite 100
   \<and> fsum (map snd (structure_summary round1 [(''shrub'', 50)]
       [(''water'', 60), (''soil'', - 10)])) \<noteq> Finite 100
   \<and> fsum (map snd (structure_summary round1 [(''shrub'', 60), (''forb'', - 10)]
       [(''water'', 10)])) \<noteq> Finite 100
   \<and> fsum (map snd (structure_summary round1 [(''shrub'', 60)] [])) \<noteq> Finite 100"
  by code_simp

text \<open>
  C2 (amended).  When the abiotic means have a non-zero sum, no biotic or abiotic mean is
  negative and the biotic means sum to at most 100, the values of the structure summary
  sum to 100 up to the rounding to one decimal: the sum is finite and differs from 100 by
  at most 0.05 for each row of the biotic and abiotic tables.
\<close>

theorem C2_summary_sum_near_100:
  assumes "one_decimal_rounding rnd"
    and "sum_list (map snd structure_abiotic) \<noteq> 0"
    and "\<forall>m \<in> set (map snd structure_biotic). 0 \<le> m"
    and "\<forall>m \<in> set (map snd structure_abiotic). 0 \<le> m"
    and "sum_list (map snd structure_biotic) \<le> 100"
  shows "\<exists>total. fsum (map snd (structure_summary rnd structure_biotic structure_abiotic))
            = Finite total
          \<and> \<bar>total - 100\<bar>
            \<le> of_nat (length structure_biotic + length structure_abiotic) / 20"
proof -
  let ?s = "sum_list (map snd structure_abiotic)"
  let ?b = "sum_list (map snd structure_biotic)"
  define c where "c = (100 - ?b) / ?s"
  define rows where "rows = structure_biotic @ map (\<lambda>(s, m). (s, m * c)) structure_abiotic"
  define exact where "exact = map snd rows"
  define kept where "kept = filter (\<lambda>y. y > 0) (map rnd exact)"
  have near: "\<forall>x. \<bar>rnd x - x\<bar> \<le> 1 / 20"
    using assms(1) by (simp add: one_decimal_rounding_def)
  have "0 \<le> ?s" using assms(4) by (intro sum_list_nonneg) auto
  with assms(2) have s: "0 < ?s" by simp
  with assms(5) have c: "0 \<le> c" by (simp add: c_def)
  have exact: "exact = map snd structure_biotic @ map (\<lambda>m. m * c) (map snd structure_abiotic)"
    by (simp add: exact_def rows_def comp_def split_def)
  have "\<forall>x \<in> set (map (\<lambda>m. m * c) (map snd structure_abiotic)). 0 \<le> x"
    using assms(4) c by (auto intro: mult_nonneg_nonneg)
  with assms(3) have nonneg: "\<forall>x \<in> set exact. 0 \<le> x"
    unfolding exact by auto
  have "?s * c = 100 - ?b"
    using assms(2) by (simp add: c_def)
  then have total: "sum_list exact = 100"
    unfolding exact by (simp only: sum_list_append sum_list_scale)
  have len: "length exact = length structure_biotic + length structure_abiotic"
    by (simp add: exact)
  have "\<bar>sum_list kept - sum_list exact\<bar> \<le> of_nat (length exact) / 20"
    unfolding kept_def using near nonneg by (rule rounded_sum_near)
  then have bound: "\<bar>sum_list kept - 100\<bar>
      \<le> of_nat (length structure_biotic + length structure_abiotic) / 20"
    unfolding total len .
  have "structure_concat structure_biotic structure_abiotic = map (\<lambda>(s, m). (s, Finite m)) rows"
    unfolding rows_def c_def by (rule structure_concat_exact [OF assms(2)])
  then have "map snd (structure_summary rnd structure_biotic structure_abiotic) = map Finite kept"
    unfolding structure_summary_def kept_def exact_def
    by (simp only: summary_of_finite_rows)
  then have "fsum (map snd (structure_summary rnd structure_biotic structure_abiotic))
      = Finite (sum_list kept)"
    by (simp only: fsum_Finite)
  with bound show ?thesis by blast
qed

theorem C2_summary_sum_near_100_witness:
  "one_decimal_rounding round1
   \<and> sum_list (map snd [(''water'', 1), (''soil'', 1), (''litter (< 2 mm)'', 1 :: rat)]) \<noteq> 0
   \<and> sum_list (map snd [(''shrub'', 50 :: rat)]) \<le> 100
   \<and> fsum (map snd (structure_summary round1 [(''shrub'', 50)]
        [(''water'', 1), (''soil'', 1), (''litter (< 2 mm)'', 1)])) = Finite (1001 / 10)
   \<and> \<bar>1001 / 10 - 100\<bar> \<le> (of_nat (length [(''shrub'', 50 :: rat)]
        + length [(''water'', 1), (''soil'', 1), (''litter (< 2 mm)'', 1 :: rat)]) / 20 :: rat)"
proof -
  let ?bi = "[(''shrub'', 50 :: rat)]"
  let ?ab = "[(''water'', 1), (''soil'', 1), (''litter (< 2 mm)'', 1 :: rat)]"
  have h2: "sum_list (map snd ?ab) \<noteq> 0" by simp
  have h3: "\<forall>m \<in> set (map snd ?bi). 0 \<le> m" by simp
  have h4: "\<forall>m \<in> set (map snd ?ab). 0 \<le> m" by simp
  have h5: "sum_list (map snd ?bi) \<le> 100" by simp
  have v: "fsum (map snd (structure_summary round1 ?bi ?ab)) = Finite (1001 / 10)"
    by code_simp
  obtain total where t: "fsum (map snd (structure_summary round1 ?bi ?ab)) = Finite total"
      "\<bar>total - 100\<bar> \<le> of_nat (length ?bi + length ?ab) / 20"
    using C2_summary_sum_near_100 [OF one_decimal_rounding_round1 h2 h3 h4 h5] by blast
  from t(1) v have "total = 1001 / 10" by simp
  with t(2) have "\<bar>1001 / 10 - 100\<bar> \<le> (of_nat (length ?bi + length ?ab) / 20 :: rat)"
    by simp
  then show ?thesis
    using one_decimal_rounding_round1 h2 h5 v by (intro conjI)
qed

subsection \<open>Percentile helpers\<close>

lemma floor_eq_ceiling_exact: "\<lfloor>h::rat\<rfloor> = \<lceil>h\<rceil> \<Longrightarrow> of_int \<lfloor>h\<rfloor> = h"
  by linarith

lemma ceiling_is_floor_succ: "\<lfloor>h::rat\<rfloor> \<noteq> \<lceil>h\<rceil> \<Longrightarrow> \<lceil>h\<rceil> = \<lfloor>h\<rfloor> + 1"
  by linarith

lemma quantile_standard:
  assumes "x \<noteq> []" "0 \<le> q" "q < 1"
  shows "quantile x q = Finite (standard_quantile x q)"
proof -
  let ?n = "length x"
  let ?v = "(of_nat ?n - 1) * q"
  let ?h = "?v + 1"
  let ?s = "sort x"
  have n: "?n > 0" using assms by simp
  have n1: "(of_nat ?n :: rat) \<ge> 1" using n by (simp add: Suc_leI)
  have v0: "0 \<le> ?v" using assms n1 by simp
  have pred: "(of_nat (?n - 1) :: rat) = of_nat ?n - 1"
    using n by (simp add: of_nat_diff Suc_leI)
  have fl: "(of_nat (nat \<lfloor>?v\<rfloor>) :: rat) = of_int \<lfloor>?v\<rfloor>" using v0 by simp
  have lo: "nat \<lfloor>?h\<rfloor> - 1 = nat \<lfloor>?v\<rfloor>" using v0 by (simp add: nat_add_distrib)
  have hfl: "?h - of_int \<lfloor>?h\<rfloor> = ?v - of_int \<lfloor>?v\<rfloor>" by simp
  have model: "quantile x q =
      Finite (?s ! nat \<lfloor>?v\<rfloor>
        + (?s ! min (nat \<lfloor>?v\<rfloor> + 1) (?n - 1) - ?s ! nat \<lfloor>?v\<rfloor>) * (?v - of_int \<lfloor>?v\<rfloor>))"
    using assms(1) by (simp only: quantile_def Let_def pred length_sort if_False fl)
  have standard: "standard_quantile x q =
      ?s ! nat \<lfloor>?v\<rfloor> + (?v - of_int \<lfloor>?v\<rfloor>) * (?s ! (nat \<lceil>?h\<rceil> - 1) - ?s ! nat \<lfloor>?v\<rfloor>)"
    by (simp only: standard_quantile_def Let_def lo hfl)
  show ?thesis
  proof (cases "\<lfloor>?v\<rfloor> = \<lceil>?v\<rceil>")
    case True
    have e: "of_int \<lfloor>?v\<rfloor> = ?v"
      by (rule floor_eq_ceiling_exact [OF True])
    have "?v - of_int \<lfloor>?v\<rfloor> = 0"
      by (simp only: e diff_self)
    then show ?thesis unfolding model standard by simp
  next
    case False
    have "?v \<noteq> 0" using False by auto
    then have pos: "(of_nat ?n - 1 :: rat) > 0"
      using n1 by (cases "of_nat ?n = (1::rat)") auto
    have "q * (of_nat ?n - 1) < 1 * (of_nat ?n - 1)"
      using assms(3) pos by (rule mult_strict_right_mono)
    then have "?v < of_nat ?n - 1" by (simp add: mult.commute)
    then have "\<lfloor>?v\<rfloor> < int ?n - 1" by (simp add: floor_less_iff)
    then have "nat \<lfloor>?v\<rfloor> + 1 \<le> ?n - 1" using v0 by linarith
    then have m: "min (nat \<lfloor>?v\<rfloor> + 1) (?n - 1) = nat \<lfloor>?v\<rfloor> + 1" by simp
    have "\<lceil>?h\<rceil> = \<lfloor>?v\<rfloor> + 2"
      using ceiling_is_floor_succ [OF False] by simp
    then have hi: "nat \<lceil>?h\<rceil> - 1 = nat \<lfloor>?v\<rfloor> + 1"
      using v0 by (simp add: nat_add_distrib)
    show ?thesis unfolding model standard m hi by (simp add: mult.commute)
  qed
qed

text \<open>
  C6.  On a non-empty series each percentile helper returns the standard
  linear-interpolation quantile at its fixed probability: 0.10, 0.25, 0.75 and 0.90.
  For the sequence 1, 2, ..., 10 the 10th percentile is 1.9 and the 90th is 9.1.
\<close>

theorem C6_percentile_helpers:
  "(x \<noteq> [] \<longrightarrow>
      percentile_10 x = Finite (standard_quantile x (1 / 10))
      \<and> percentile_25 x = Finite (standard_quantile x (1 / 4))
      \<and> percentile_75 x = Finite (standard_quantile x (3 / 4))
      \<and> percentile_90 x = Finite (standard_quantile x (9 / 10)))
   \<and> percentile_10 [1, 2, 3, 4, 5, 6, 7, 8, 9, 10] = Finite (19 / 10)
   \<and> percentile_90 [1, 2, 3, 4, 5, 6, 7, 8, 9, 10] = Finite (91 / 10)"
proof (intro conjI impI)
  assume x: "x \<noteq> []"
  show "percentile_10 x = Finite (standard_quantile x (1 / 10))"
    unfolding percentile_10_def using quantile_standard [OF x, of "1 / 10"] by simp
  show "percentile_25 x = Finite (standard_quantile x (1 / 4))"
    unfolding percentile_25_def using quantile_standard [OF x, of "1 / 4"] by simp
  show "percentile_75 x = Finite (standard_quantile x (3 / 4))"
    unfolding percentile_75_def using quantile_standard [OF x, of "3 / 4"] by simp
  show "percentile_90 x = Finite (standard_quantile x (9 / 10))"
    unfolding percentile_90_def using quantile_standard [OF x, of "9 / 10"] by simp
next
  show "percentile_10 [1, 2, 3, 4, 5, 6, 7, 8, 9, 10] = Finite (19 / 10)"
    by code_simp
  show "percentile_90 [1, 2, 3, 4, 5, 6, 7, 8, 9, 10] = Finite (91 / 10)"
    by code_simp
qed

theorem C6_percentile_helpers_witness:
  "[12, 3, 40, 7 :: rat] \<noteq> []
   \<and> percentile_10 [12, 3, 40, 7] = Finite (standard_quantile [12, 3, 40, 7] (1 / 10))
   \<and> percentile_25 [12, 3, 40, 7] = Finite (6)
   \<and> percentile_75 [12, 3, 40, 7] = Finite (19)
   \<and> percentile_90 [12, 3, 40, 7] = Finite (standard_quantile [12, 3, 40, 7] (9 / 10))"
proof -
  have ne: "[12, 3, 40, 7 :: rat] \<noteq> []" by simp
  have s25: "standard_quantile [12, 3, 40, 7] (1 / 4) = 6" by code_simp
  have s75: "standard_quantile [12, 3, 40, 7] (3 / 4) = 19" by code_simp
  show ?thesis
    using C6_percentile_helpers [of "[12, 3, 40, 7]"] ne s25 s75 by simp
qed

subsection \<open>Sentinel filtering\<close>

lemma filter_neq_removed:
  "mset xs = mset (filter (\<lambda>x. x \<noteq> c) xs) + replicate_mset (count_list xs c) c"
  by (induction xs) auto

lemma map_snd_filter_neq:
  "map snd (filter (\<lambda>(k, v). v \<noteq> c) rows) = filter (\<lambda>v. v \<noteq> c) (map snd rows)"
  by (induction rows) auto

lemma aggregated_filter:
  "aggregated s t = filter (\<lambda>v. v \<noteq> missing_code s) (recorded s t)"
  by (cases s)
    (simp_all add: canopy_data_def tussock_data_clean_def elevation_data_def slope_data_def
      waterdepth_data_def mossduff_data_def restictdepth_data_def pH_data_def
      conductivity_data_def map_snd_filter_neq)

text \<open>
  C4.  For each of the nine measurement series, the values the statistics are aggregated
  over are the recorded values without those equal to the missing-data code of the
  series (-32768 for the two raster series, -999 for the others): the code does not occur
  among them, the rows removed are copies of the code and nothing else, and the remaining
  rows keep their order.
\<close>

theorem C4_sentinel_filtering:
  "missing_code s \<in> {- 999, - 32768}
   \<and> missing_code s \<notin> set (aggregated s t)
   \<and> mset (recorded s t) =
       mset (aggregated s t)
       + replicate_mset (count_list (recorded s t) (missing_code s)) (missing_code s)
   \<and> subseq (aggregated s t) (recorded s t)"
proof (intro conjI)
  show "missing_code s \<in> {- 999, - 32768}"
    by (cases s) simp_all
  show "missing_code s \<notin> set (aggregated s t)"
    by (simp add: aggregated_filter)
  show "mset (recorded s t) =
       mset (aggregated s t)
       + replicate_mset (count_list (recorded s t) (missing_code s)) (missing_code s)"
    unfolding aggregated_filter by (rule filter_neq_removed)
  show "subseq (aggregated s t) (recorded s t)"
    by (simp add: aggregated_filter)
qed

subsection \<open>Vegetation cover\<close>

text \<open>
  C5.  A cover observation of -999 is not removed: the rows that reach the cover
  statistics are all the rows of absolute cover and live vegetation, whatever their
  cover value; the -999 values among them have become 0, the other values are unchanged;
  and the number of occurrence rows of a taxon counts the -999 rows as well.
\<close>

theorem C5_absence_retained_as_zero:
  "map (\<lambda>r. r\<lparr>cover_percent := 0\<rparr>) (vegetation_cover vegetation_data) =
     map (\<lambda>r. r\<lparr>cover_percent := 0\<rparr>)
       (filter (\<lambda>r. cover_type r \<in> {''absolute foliar cover'', ''absolute canopy cover''}
                    \<and> \<not> dead_status r) vegetation_data)
   \<and> map cover_percent (vegetation_cover vegetation_data) =
     map (\<lambda>r. if cover_percent r = - 999 then 0 else cover_percent r)
       (filter (\<lambda>r. cover_type r \<in> {''absolute foliar cover'', ''absolute canopy cover''}
                    \<and> \<not> dead_status r) vegetation_data)
   \<and> count_list (map name_accepted (vegetation_cover vegetation_data)) taxon =
     length (filter (\<lambda>r. name_accepted r = taxon
                    \<and> cover_type r \<in> {''absolute foliar cover'', ''absolute canopy cover''}
                    \<and> \<not> dead_status r) vegetation_data)
   \<and> vegetation_cover
       [\<lparr>veg_site_visit_code = ''NPRA_001'', name_accepted = ''Carex aquatilis'',
         cover_percent = - 999, cover_type = ''absolute foliar cover'', dead_status = False\<rparr>]
     = [\<lparr>veg_site_visit_code = ''NPRA_001'', name_accepted = ''Carex aquatilis'',
         cover_percent = 0, cover_type = ''absolute foliar cover'', dead_status = False\<rparr>]"
proof (intro conjI)
  show "map (\<lambda>r. r\<lparr>cover_percent := 0\<rparr>) (vegetation_cover vegetation_data) =
     map (\<lambda>r. r\<lparr>cover_percent := 0\<rparr>)
       (filter (\<lambda>r. cover_type r \<in> {''absolute foliar cover'', ''absolute canopy cover''}
                    \<and> \<not> dead_status r) vegetation_data)"
    unfolding vegetation_cover_def by (induction vegetation_data) auto
  show "map cover_percent (vegetation_cover vegetation_data) =
     map (\<lambda>r. if cover_percent r = - 999 then 0 else cover_percent r)
       (filter (\<lambda>r. cover_type r \<in> {''absolute foliar cover'', ''absolute canopy cover''}
                    \<and> \<not> dead_status r) vegetation_data)"
    unfolding vegetation_cover_def by (induction vegetation_data) auto
  show "count_list (map name_accepted (vegetation_cover vegetation_data)) taxon =
     length (filter (\<lambda>r. name_accepted r = taxon
                    \<and> cover_type r \<in> {''absolute foliar cover'', ''absolute canopy cover''}
                    \<and> \<not> dead_status r) vegetation_data)"
    unfolding vegetation_cover_def by (induction vegetation_data) auto
  show "vegetation_cover
       [\<lparr>veg_site_visit_code = ''NPRA_001'', name_accepted = ''Carex aquatilis'',
         cover_percent = - 999, cover_type = ''absolute foliar cover'', dead_status = False\<rparr>]
     = [\<lparr>veg_site_visit_code = ''NPRA_001'', name_accepted = ''Carex aquatilis'',
         cover_percent = 0, cover_type = ''absolute foliar cover'', dead_status = False\<rparr>]"
    by (simp add: vegetation_cover_def)
qed

subsection \<open>Constancy\<close>





text \<open>
  C7.  The constancy of the vascular table counts the rows of a taxon, and the table is
  not grouped by site visit and taxon before its rows are counted.  Where a site visit
  holds a taxon in two rows (two recorded names with one accepted name), the constancy
  is not the percentage of site visits that hold the taxon: with one site visit in the
  table it is 200, for a taxon that occurs in one site visit of one; with two site visits
  it is 100, for a taxon that occurs in one site visit of two.  The diagnostic table
  built from the same rows is grouped by site visit and set before its rows are counted,
  and gives 100 for the set of the taxon at the one site visit.
\<close>

theorem C7_vascular_constancy_counts_rows:
  "map_of (constancy_vascular
      [\<lparr>veg_site_visit_code = ''NPRA_001'', name_accepted = ''Carex aquatilis'', cover_percent = 10,
         taxon_genus = Some ''Carex'', taxon_level = Some ''species'',
         taxon_category = Some ''monocot'', taxon_habit = Some ''graminoid''\<rparr>,
       \<lparr>veg_site_visit_code = ''NPRA_001'', name_accepted = ''Carex aquatilis'', cover_percent = 5,
         taxon_genus = Some ''Carex'', taxon_level = Some ''species'',
         taxon_category = Some ''monocot'', taxon_habit = Some ''graminoid''\<rparr>])
      ''Carex aquatilis'' = Some (2, 200)
   \<and> map_of (constancy_diagnostic_vasc (diagnostic_vascular
      [\<lparr>veg_site_visit_code = ''NPRA_001'', name_accepted = ''Carex aquatilis'', cover_percent = 10,
         taxon_genus = Some ''Carex'', taxon_level = Some ''species'',
         taxon_category = Some ''monocot'', taxon_habit = Some ''graminoid''\<rparr>,
       \<lparr>veg_site_visit_code = ''NPRA_001'', name_accepted = ''Carex aquatilis'', cover_percent = 5,
         taxon_genus = Some ''Carex'', taxon_level = Some ''species'',
         taxon_category = Some ''monocot'', taxon_habit = Some ''graminoid''\<rparr>]
      [(''wetland sedges'', ''Carex aquatilis'')]))
      ''wetland sedges'' = Some (1, 100)
   \<and> map_of (constancy_vascular
      [\<lparr>veg_site_visit_code = ''NPRA_001'', name_accepted = ''Carex aquatilis'', cover_percent = 10,
         taxon_genus = Some ''Carex'', taxon_level = Some ''species'',
         taxon_category = Some ''monocot'', taxon_habit = Some ''graminoid''\<rparr>,
       \<lparr>veg_site_visit_code = ''NPRA_001'', name_accepted = ''Carex aquatilis'', cover_percent = 5,
         taxon_genus = Some ''Carex'', taxon_level = Some ''species'',
         taxon_category = Some ''monocot'', taxon_habit = Some ''graminoid''\<rparr>,
       \<lparr>veg_site_visit_code = ''NPRA_002'', name_accepted = ''Salix pulchra'', cover_percent = 20,
         taxon_genus = Some ''Salix'', taxon_level = Some ''species'',
         taxon_category = Some ''eudicot'', taxon_habit = Some ''shrub''\<rparr>])
      ''Carex aquatilis'' = Some (2, 100)"
  by code_simp

subsection \<open>Categorical environment summaries\<close>












subsection \<open>Markdown field parsing\<close>



text \<open>
  C8.  The parser returns the value of a field that is on the line of its label: from
  \<^verbatim>\<open>**Unit Name:** Wet Sedge Meadow\<close> it returns \<^verbatim>\<open>Wet Sedge Meadow\<close>, and it returns
  null for a label that the content does not hold.  Where nothing but whitespace follows
  the label on its line, it does not return the empty remainder of that line: the
  whitespace taken after the label includes the line feed, and the value returned is the
  text of the next line that is not blank, here a heading after the blank photo field
  and the level after a blank unit name.
\<close>

theorem C8_blank_field_takes_next_line:
  "fst (parse_markdown
      (Some (''**Unit Name:** Wet Sedge Meadow'' @ [newline] @ ''**Photos:**'' @ [newline]
         @ ''## Description''))
      ''unit.md'' ''Photos'') = Some ''## Description''
   \<and> spec_line_remainder ([newline] @ ''## Description'') = []
   \<and> fst (parse_markdown
      (Some (''**Unit Name:**'' @ [newline] @ ''**Level:** Alliance''))
      ''unit.md'' ''Unit Name'') = Some ''**Level:** Alliance''
   \<and> spec_line_remainder ([newline] @ ''**Level:** Alliance'') = []
   \<and> fst (parse_markdown
      (Some (''**Unit Name:** Wet Sedge Meadow'' @ [newline] @ ''**Photos:**'' @ [newline]
         @ ''## Description''))
      ''unit.md'' ''Unit Name'') = Some ''Wet Sedge Meadow''
   \<and> fst (parse_markdown
      (Some (''**Unit Name:** Wet Sedge Meadow'' @ [newline] @ ''**Photos:**'' @ [newline]
         @ ''## Description''))
      ''unit.md'' ''Level'') = None"
  by code_simp

text \<open>
  C9.  When the markdown file does not exist, the parser returns null and prints the
  error message instead of raising, for every label; the script then prints the message
  three times and stops with the attribute error raised by the call of \<^verbatim>\<open>split\<close> on the
  null photo text.
\<close>

theorem C9_missing_file:
  "parse_markdown None text_input label =
     (None, [''Error: The file '' @ text_input @ '' was not found.''])
   \<and> parse_text_descriptions None text_input =
     ([''Error: The file '' @ text_input @ '' was not found.'',
       ''Error: The file '' @ text_input @ '' was not found.'',
       ''Error: The file '' @ text_input @ '' was not found.''],
      Inl AttributeError)"
  by (simp add: parse_markdown_def parse_text_descriptions_def)

subsection \<open>Site visits of the unit\<close>














end
